theory Spec2Isabelle
  imports Main
begin

section \<open>Data model of backend/app.py\<close>

text \<open>
  The Flask handlers answer with \<^verbatim>\<open>jsonify({...}), code\<close>. A response is the JSON
  object as a list of keys and values in the order the source writes them, paired with
  the HTTP status code. \<open>JIso t\<close> stands for \<^verbatim>\<open>created_at.isoformat()\<close> of the
  timestamp \<open>t\<close>.
\<close>

datatype jval =
    JNull
  | JInt int
  | JStr string
  | JIso nat
  | JList "jval list"
  | JObj "(string \<times> jval) list"

type_synonym response = "(string \<times> jval) list \<times> nat"

text \<open>
  The two SQLAlchemy models. The primary key column \<^verbatim>\<open>id\<close> is named \<open>uid\<close> and
  \<open>jid\<close> here; \<^verbatim>\<open>status\<close> is a free string column, as in the source, and
  \<^verbatim>\<open>target_language\<close> is nullable.
\<close>

record user =
  uid :: int
  email :: string
  registered_at :: nat

record job =
  jid :: int
  user_id :: int
  original_filename :: string
  target_language :: "string option"
  status :: string
  created_at :: nat

text \<open>
  The database: the two tables, rows in insertion order. The source keeps nothing
  else. \<open>failure_reasons\<close> is not a table of the source: only the operation modelled
  from the specification (\<open>apply_provider_outcome\<close> below) writes it, and no handler
  of the source reads or changes it.
\<close>

record db =
  users :: "user list"
  jobs :: "job list"
  failure_reasons :: "(int \<times> string) list"

definition empty_db :: db where
  "empty_db = \<lparr>users = [], jobs = [], failure_reasons = []\<rparr>"

definition user_to_dict :: "user \<Rightarrow> (string \<times> jval) list" where
  "user_to_dict u =
     [(''id'', JInt (uid u)), (''email'', JStr (email u)),
      (''created_at'', JIso (registered_at u))]"

definition to_dict :: "job \<Rightarrow> (string \<times> jval) list" where
  "to_dict j =
     [(''id'', JInt (jid j)),
      (''user_id'', JInt (user_id j)),
      (''original_filename'', JStr (original_filename j)),
      (''target_language'', (case target_language j of None \<Rightarrow> JNull | Some l \<Rightarrow> JStr l)),
      (''status'', JStr (status j)),
      (''created_at'', JIso (created_at j))]"

text \<open>The row of a table with a given primary key, if there is one.\<close>

definition get_user :: "db \<Rightarrow> int \<Rightarrow> user option" where
  "get_user d i = find (\<lambda>u. uid u = i) (users d)"

definition get_job :: "db \<Rightarrow> int \<Rightarrow> job option" where
  "get_job d i = find (\<lambda>j. jid j = i) (jobs d)"

text \<open>
  An exception that leaves a handler; Flask answers it with status 500 and none of the
  handler's JSON bodies. \<open>CommitError e\<close> is the error \<open>e\<close> raised by
  \<^verbatim>\<open>db.session.commit()\<close>.
\<close>

datatype exn = OverflowError | CommitError string

text \<open>
  \<^verbatim>\<open>TranslationJob.query.get(job_id)\<close> with an integer from the request: SQLite holds
  signed 64-bit integers, and binding an integer outside that range raises
  \<^verbatim>\<open>OverflowError\<close>, which is not a database error and is passed on as it is.
  (\<^verbatim>\<open>User.query.get(user_id)\<close> in \<^verbatim>\<open>upload_file\<close> is given the string of the form
  field, which has no such range.)
\<close>

definition in_int64 :: "int \<Rightarrow> bool" where
  "in_int64 i = (- 9223372036854775808 \<le> i \<and> i \<le> 9223372036854775807)"

definition query_get :: "db \<Rightarrow> int \<Rightarrow> exn + job option" where
  "query_get d i = (if in_int64 i then Inr (get_job d i) else Inl OverflowError)"

text \<open>
  \<^verbatim>\<open>db.session.commit()\<close> of a request. \<open>fault\<close> is the error, if any, that the
  database raises at a commit of this request. Without one the pending table \<open>d'\<close>
  becomes the table; with one the commit raises, and the table stays as it was.
\<close>

definition commit :: "string option \<Rightarrow> db \<Rightarrow> string + db" where
  "commit fault d' = (case fault of None \<Rightarrow> Inr d' | Some e \<Rightarrow> Inl e)"

text \<open>Assigning to the attributes of the object that \<^verbatim>\<open>query.get\<close> returned and
  committing changes that row and no other.\<close>

fun upd_row :: "int \<Rightarrow> (job \<Rightarrow> job) \<Rightarrow> job list \<Rightarrow> job list" where
  "upd_row i f [] = []"
| "upd_row i f (j # js) = (if jid j = i then f j # js else j # upd_row i f js)"

definition upd_job :: "int \<Rightarrow> (job \<Rightarrow> job) \<Rightarrow> db \<Rightarrow> db" where
  "upd_job i f d = d\<lparr>jobs := upd_row i f (jobs d)\<rparr>"

text \<open>The integer primary key SQLite gives a new row: one more than the largest key
  in the table, 1 in an empty table.\<close>

definition next_id :: "int list \<Rightarrow> int" where
  "next_id ids = foldr max ids 0 + 1"

text \<open>The list the source repeats at lines 86 and 197.\<close>

definition supported_languages :: "string list" where
  "supported_languages =
     [''es'', ''fr'', ''de'', ''it'', ''pt'', ''ru'', ''ja'', ''ko'', ''zh'', ''hi'']"

section \<open>The handlers\<close>

text \<open>
  Request bodies: \<open>None\<close> for a key that is absent, and an outer \<open>None\<close> where
  \<^verbatim>\<open>request.get_json()\<close> gives nothing. A job id is an integer; an e-mail address
  and a file name are strings. The target language of a translate request is a
  string or JSON \<^verbatim>\<open>null\<close>: \<open>Some None\<close> is the key present with the value
  \<^verbatim>\<open>null\<close>, which the test \<^verbatim>\<open>'target_language' not in data\<close> of line 194 lets
  through.
\<close>

record user_body =
  b_email :: "string option"

record upload_request =
  form_user_id :: "int option"
  file_name :: "string option"

record translate_body =
  b_job_id :: "int option"
  b_target_language :: "string option option"

text \<open>\<^verbatim>\<open>create_user\<close>, lines 99-117. \<open>now\<close> is the clock read by the column default.\<close>

definition create_user :: "nat \<Rightarrow> user_body option \<Rightarrow> db \<Rightarrow> response \<times> db" where
  "create_user now data d =
     (case (case data of None \<Rightarrow> None | Some b \<Rightarrow> b_email b) of
        None \<Rightarrow> (([(''error'', JStr ''Email is required'')], 400), d)
      | Some e \<Rightarrow>
          (case find (\<lambda>u. email u = e) (users d) of
             Some existing_user \<Rightarrow> (([(''error'', JStr ''User already exists'')], 400), d)
           | None \<Rightarrow>
               let u = \<lparr>uid = next_id (map uid (users d)), email = e, registered_at = now\<rparr>
               in (([(''message'', JStr ''User created successfully''),
                     (''user'', JObj (user_to_dict u))], 201),
                   d\<lparr>users := users d @ [u]\<rparr>)))"

text \<open>\<^verbatim>\<open>get_job_status\<close>, lines 127-136: a read.\<close>

definition get_job_status :: "int \<Rightarrow> db \<Rightarrow> exn + response" where
  "get_job_status job_id d =
     (case query_get d job_id of
        Inl x \<Rightarrow> Inl x
      | Inr None \<Rightarrow> Inr ([(''error'', JStr ''Job not found'')], 404)
      | Inr (Some j) \<Rightarrow> Inr ([(''job'', JObj (to_dict j))], 200))"

text \<open>
  \<^verbatim>\<open>upload_file\<close>, lines 138-180. \<open>exc\<close> is the exception, if any, that
  \<^verbatim>\<open>file.save\<close> or the commit raises inside the \<^verbatim>\<open>try\<close> block (its \<^verbatim>\<open>str(e)\<close>);
  then nothing is stored. The upload folder itself is not modelled.
\<close>

definition upload_file :: "nat \<Rightarrow> string option \<Rightarrow> upload_request \<Rightarrow> db \<Rightarrow> response \<times> db" where
  "upload_file now exc req d =
     (case form_user_id req of
        None \<Rightarrow> (([(''error'', JStr ''user_id is required'')], 400), d)
      | Some user_id' \<Rightarrow>
          (case get_user d user_id' of
             None \<Rightarrow> (([(''error'', JStr ''User not found'')], 404), d)
           | Some u \<Rightarrow>
               (case file_name req of
                  None \<Rightarrow> (([(''error'', JStr ''No file provided'')], 400), d)
                | Some filename \<Rightarrow>
                    if filename = [] then (([(''error'', JStr ''No file selected'')], 400), d)
                    else
                      (case exc of
                         Some e \<Rightarrow>
                           (([(''error'', JStr ''Upload failed''), (''details'', JStr e)], 500), d)
                       | None \<Rightarrow>
                           let j = \<lparr>jid = next_id (map jid (jobs d)), user_id = user_id',
                                    original_filename = filename, target_language = None,
                                    status = ''uploaded'', created_at = now\<rparr>
                           in (([(''message'', JStr ''File uploaded successfully!''),
                                 (''job'', JObj (to_dict j)),
                                 (''filename'', JStr filename),
                                 (''next_step'', JStr ''Use /api/translate to start translation'')],
                                201),
                               d\<lparr>jobs := jobs d @ [j]\<rparr>)))))"

text \<open>\<^verbatim>\<open>not HEYGEN_API_KEY\<close>: the environment variable is unset or the empty string.\<close>

definition configured :: "string option \<Rightarrow> bool" where
  "configured key = (case key of None \<Rightarrow> False | Some k \<Rightarrow> k \<noteq> [])"

definition not_configured_response :: response where
  "not_configured_response =
     ([(''error'', JStr ''HeyGen API not configured''),
       (''message'', JStr ''Please set HEYGEN_API_KEY environment variable'')], 500)"

definition fields_required_response :: response where
  "fields_required_response =
     ([(''error'', JStr ''job_id and target_language are required''),
       (''supported_languages'', JList (map JStr supported_languages))], 400)"

definition job_not_found_response :: response where
  "job_not_found_response = ([(''error'', JStr ''Job not found'')], 404)"

definition wrong_status_response :: "job \<Rightarrow> response" where
  "wrong_status_response j =
     ([(''error'', JStr (''Job status is '' @ status j @ '', expected uploaded''))], 400)"

definition started_response :: "job \<Rightarrow> string option \<Rightarrow> response" where
  "started_response j lang =
     ([(''message'', JStr ''Translation started successfully!''),
       (''job'', JObj (to_dict j)),
       (''status'', JStr ''processing''),
       (''target_language'', (case lang of None \<Rightarrow> JNull | Some l \<Rightarrow> JStr l)),
       (''note'', JStr ''Currently simulated - real HeyGen integration ready for your API key'')],
      200)"

definition failed_to_start_response :: "string \<Rightarrow> job \<Rightarrow> response" where
  "failed_to_start_response e j =
     ([(''error'', JStr ''Translation failed to start''),
       (''details'', JStr e),
       (''job'', JObj (to_dict j))], 500)"

text \<open>
  \<^verbatim>\<open>start_translation\<close>, lines 182-238. The lookup of line 204 is outside the
  \<^verbatim>\<open>try\<close> block, so its exception leaves the handler. Inside the block the two
  assignments of lines 215-216 cannot raise and the source calls no provider, so the
  commit of line 217 is what raises there. The handler of lines 230-238 then assigns
  \<^verbatim>\<open>failed\<close> to the same object and commits in the same session, with no rollback
  in between: that commit meets the same fault, raises out of the handler, and the
  table is left as it was.
\<close>

definition start_translation ::
  "string option \<Rightarrow> string option \<Rightarrow> translate_body option \<Rightarrow> db \<Rightarrow> (exn + response) \<times> db" where
  "start_translation HEYGEN_API_KEY fault data d =
     (if \<not> configured HEYGEN_API_KEY then (Inr not_configured_response, d)
      else
        (case data of
           None \<Rightarrow> (Inr fields_required_response, d)
         | Some b \<Rightarrow>
             (case b_job_id b of
                None \<Rightarrow> (Inr fields_required_response, d)
              | Some job_id \<Rightarrow>
                  (case b_target_language b of
                     None \<Rightarrow> (Inr fields_required_response, d)
                   | Some lang \<Rightarrow>
                       (case query_get d job_id of
                          Inl x \<Rightarrow> (Inl x, d)
                        | Inr None \<Rightarrow> (Inr job_not_found_response, d)
                        | Inr (Some j) \<Rightarrow>
                            if status j \<noteq> ''uploaded'' then (Inr (wrong_status_response j), d)
                            else
                              let j1 = j\<lparr>status := ''processing'', target_language := lang\<rparr>
                              in (case commit fault (upd_job job_id (\<lambda>_. j1) d) of
                                    Inr d1 \<Rightarrow> (Inr (started_response j1 lang), d1)
                                  | Inl e \<Rightarrow>
                                      let j2 = j1\<lparr>status := ''failed''\<rparr>
                                      in (case commit fault (upd_job job_id (\<lambda>_. j2) d) of
                                            Inr d2 \<Rightarrow> (Inr (failed_to_start_response e j2), d2)
                                          | Inl e' \<Rightarrow> (Inl (CommitError e'), d))))))))"

section \<open>The provider outcome\<close>

datatype outcome = Completed | Failed string

datatype core_error = JobNotFound | InvalidTransition string

text \<open>
  Modelled from the spec: \<open>ApplyProviderOutcome(jobId, outcome)\<close> of section 4.2, which
  backend/app.py does not have (no route or function there reports a provider result,
  and nothing writes the status \<^verbatim>\<open>completed\<close>). In the spec's words: the job exists;
  on a job in \<^verbatim>\<open>processing\<close> it "sets status to completed or failed accordingly;
  failed additionally records the captured reason"; "a late/duplicate outcome on a job
  already completed/failed is accepted idempotently: the second delivery has no effect
  and returns the already-terminal job rather than failing"; any other transition
  "fails with InvalidTransition".
\<close>

definition apply_provider_outcome :: "int \<Rightarrow> outcome \<Rightarrow> db \<Rightarrow> (core_error + job) \<times> db" where
  "apply_provider_outcome job_id out d =
     (case get_job d job_id of
        None \<Rightarrow> (Inl JobNotFound, d)
      | Some j \<Rightarrow>
          if status j = ''processing'' then
            (case out of
               Completed \<Rightarrow>
                 let j' = j\<lparr>status := ''completed''\<rparr>
                 in (Inr j', upd_job job_id (\<lambda>_. j') d)
             | Failed reason \<Rightarrow>
                 let j' = j\<lparr>status := ''failed''\<rparr>
                 in (Inr j',
                     (upd_job job_id (\<lambda>_. j') d)
                       \<lparr>failure_reasons := failure_reasons d @ [(job_id, reason)]\<rparr>))
          else if status j = ''completed'' \<or> status j = ''failed'' then (Inr j, d)
          else (Inl (InvalidTransition (status j)), d))"

section \<open>Sequences of operations\<close>

text \<open>
  An operation with everything it reads from outside the database: the clock, the
  exception or commit fault of the request (if any) and the request itself.
  \<open>writes\<close> is the database each handler call leaves; the status poll
  (\<open>get_job_status\<close>) only reads and leaves none.
  \<open>history\<close> runs a sequence of operations and collects the databases left.
  \<^verbatim>\<open>HEYGEN_API_KEY\<close> is read once at start-up, so it is the same for a whole run.
\<close>

datatype operation =
    CreateAccount nat "user_body option"
  | RegisterUpload nat "string option" upload_request
  | RequestTranslation "string option" "translate_body option"
  | ApplyProviderOutcome int outcome
  | GetJob int

fun writes :: "string option \<Rightarrow> operation \<Rightarrow> db \<Rightarrow> db list" where
  "writes key (CreateAccount now data) d = [snd (create_user now data d)]"
| "writes key (RegisterUpload now exc req) d = [snd (upload_file now exc req d)]"
| "writes key (RequestTranslation fault data) d = [snd (start_translation key fault data d)]"
| "writes key (ApplyProviderOutcome i out) d = [snd (apply_provider_outcome i out d)]"
| "writes key (GetJob i) d = []"

fun history :: "string option \<Rightarrow> operation list \<Rightarrow> db \<Rightarrow> db list" where
  "history key [] d = []"
| "history key (a # as) d =
     (let ws = writes key a d in ws @ history key as (last (d # ws)))"

text \<open>The status graph of the specification, section 4.2.\<close>

definition known_status :: "string \<Rightarrow> bool" where
  "known_status s = (s \<in> set [''uploaded'', ''processing'', ''completed'', ''failed''])"

definition edge :: "string \<Rightarrow> string \<Rightarrow> bool" where
  "edge a b =
     ((a = ''uploaded'' \<and> b = ''processing'') \<or>
      (a = ''processing'' \<and> (b = ''completed'' \<or> b = ''failed'')))"

definition terminal :: "string \<Rightarrow> bool" where
  "terminal s = (s = ''completed'' \<or> s = ''failed'')"

text \<open>\<open>rows_rel R d d'\<close>: every row of the job table of \<open>d\<close> is still there in \<open>d'\<close>,
  at its place, and \<open>R\<close> relates the old row to the new one. Rows may have been added.\<close>

definition rows_rel :: "(job \<Rightarrow> job \<Rightarrow> bool) \<Rightarrow> db \<Rightarrow> db \<Rightarrow> bool" where
  "rows_rel R d d' = list_all2 R (jobs d) (take (length (jobs d)) (jobs d'))"

definition statuses_known :: "db \<Rightarrow> bool" where
  "statuses_known d = list_all (\<lambda>j. known_status (status j)) (jobs d)"

definition status_step :: "job \<Rightarrow> job \<Rightarrow> bool" where
  "status_step j j' =
     (jid j' = jid j \<and>
      (status j' = status j \<or> edge (status j) (status j')) \<and>
      (terminal (status j) \<longrightarrow> status j' = status j))"





definition emails_unique :: "db \<Rightarrow> bool" where
  "emails_unique d = distinct (map email (users d))"




section \<open>Example databases and runs\<close>

text \<open>
  One account and no job; then the scenario of the specification (upload, translate,
  poll, outcome, a second translate request on the finished job) followed by a second
  upload whose first translate request meets a commit fault, whose second one
  succeeds, and whose provider then reports a failure.
\<close>

definition example_db :: db where
  "example_db = \<lparr>users = [\<lparr>uid = 1, email = ''a1@example.org'', registered_at = 0\<rparr>],
                   jobs = [], failure_reasons = []\<rparr>"

definition example_run :: "operation list" where
  "example_run =
     [RegisterUpload 5 None \<lparr>form_user_id = Some 1, file_name = Some ''clip.mp4''\<rparr>,
      RequestTranslation None (Some \<lparr>b_job_id = Some 1, b_target_language = Some (Some ''es'')\<rparr>),
      GetJob 1,
      ApplyProviderOutcome 1 Completed,
      RequestTranslation None (Some \<lparr>b_job_id = Some 1, b_target_language = Some (Some ''fr'')\<rparr>),
      RegisterUpload 6 None \<lparr>form_user_id = Some 1, file_name = Some ''talk.mp4''\<rparr>,
      RequestTranslation (Some ''database is locked'')
        (Some \<lparr>b_job_id = Some 2, b_target_language = Some (Some ''de'')\<rparr>),
      RequestTranslation None (Some \<lparr>b_job_id = Some 2, b_target_language = Some (Some ''de'')\<rparr>),
      ApplyProviderOutcome 2 (Failed ''provider error'')]"

text \<open>The database after the first upload, and after its translation has started.\<close>

definition uploaded_job :: job where
  "uploaded_job = \<lparr>jid = 1, user_id = 1, original_filename = ''clip.mp4'',
                     target_language = None, status = ''uploaded'', created_at = 5\<rparr>"

definition uploaded_db :: db where
  "uploaded_db = example_db\<lparr>jobs := [uploaded_job]\<rparr>"

definition processing_job :: job where
  "processing_job = uploaded_job\<lparr>status := ''processing'', target_language := Some ''es''\<rparr>"

definition processing_db :: db where
  "processing_db = example_db\<lparr>jobs := [processing_job]\<rparr>"

definition completed_job :: job where
  "completed_job = processing_job\<lparr>status := ''completed''\<rparr>"

text \<open>Two registrations and an upload, for the account table.\<close>

definition accounts_run :: "operation list" where
  "accounts_run =
     [CreateAccount 7 (Some \<lparr>b_email = Some ''a1@example.org''\<rparr>),
      CreateAccount 8 (Some \<lparr>b_email = Some ''a2@example.org''\<rparr>),
      RegisterUpload 9 None \<lparr>form_user_id = Some 2, file_name = Some ''clip.mp4''\<rparr>]"

section \<open>Lemmas about the job table\<close>

subsection \<open>Writing one row\<close>

lemma upd_row_length: "length (upd_row i f js) = length js"
  by (induction js) auto

lemma upd_row_rel:
  assumes "\<And>j. R j j" and "\<And>j. find (\<lambda>j. jid j = i) js = Some j \<Longrightarrow> R j (f j)"
  shows "list_all2 R js (upd_row i f js)"
  using assms(2)
proof (induction js)
  case Nil
  then show ?case by simp
next
  case (Cons a js)
  then show ?case using assms(1) by (auto simp: list_all2_refl)
qed

lemma find_jid: "find (\<lambda>j. jid j = i) js = Some j \<Longrightarrow> jid j = i"
  by (induction js) (auto split: if_splits)

lemma find_upd_row:
  "find (\<lambda>j. jid j = i) js = Some j \<Longrightarrow> jid (f j) = i \<Longrightarrow>
   find (\<lambda>j. jid j = i) (upd_row i f js) = Some (f j)"
  by (induction js) (auto split: if_splits)

lemma upd_row_all:
  assumes "list_all P js" and "\<And>j. find (\<lambda>j. jid j = i) js = Some j \<Longrightarrow> P j \<Longrightarrow> P (f j)"
  shows "list_all P (upd_row i f js)"
  using assms by (induction js) auto

lemma jobs_upd_all:
  assumes "list_all P (jobs d)" and "\<And>j. get_job d i = Some j \<Longrightarrow> P j \<Longrightarrow> P (f j)"
  shows "list_all P (jobs (upd_job i f d))"
  using assms by (simp add: upd_job_def get_job_def upd_row_all)

lemma get_job_upd:
  "get_job d i = Some j \<Longrightarrow> jid (f j) = i \<Longrightarrow> get_job (upd_job i f d) i = Some (f j)"
  by (simp add: get_job_def upd_job_def find_upd_row)

lemma get_job_jid: "get_job d i = Some j \<Longrightarrow> jid j = i"
  unfolding get_job_def by (rule find_jid)

subsection \<open>Successive databases\<close>

lemma rows_rel_refl: "(\<And>j. R j j) \<Longrightarrow> rows_rel R d d"
  by (simp add: rows_rel_def list_all2_refl)

lemma rows_rel_upd:
  assumes "\<And>j. R j j" and "\<And>j. get_job d i = Some j \<Longrightarrow> R j (f j)"
  shows "rows_rel R d (upd_job i f d)"
  using assms by (simp add: rows_rel_def upd_job_def get_job_def upd_row_length upd_row_rel)

lemma rows_rel_append:
  "(\<And>j. R j j) \<Longrightarrow> rows_rel R d (d\<lparr>jobs := jobs d @ js\<rparr>)"
  by (simp add: rows_rel_def list_all2_refl)

lemma successively_join:
  "successively P (a # ws) \<Longrightarrow> successively P (last (a # ws) # rest) \<Longrightarrow>
   successively P (a # ws @ rest)"
  by (induction ws arbitrary: a) (auto simp: successively_Cons)

subsection \<open>The write of a translate request\<close>

text \<open>The handler writes only after the key test, the parsing, the lookup and the
  status test have all passed and when the commit meets no fault; then it writes the
  one row it looked up.\<close>

lemma start_translation_reached:
  assumes "configured key" and "in_int64 i" and "get_job d i = Some j"
    and "status j = ''uploaded''"
  shows "start_translation key fault (Some \<lparr>b_job_id = Some i, b_target_language = Some l\<rparr>) d =
    (case fault of
       None \<Rightarrow> (Inr (started_response (j\<lparr>status := ''processing'', target_language := l\<rparr>) l),
                 upd_job i (\<lambda>_. j\<lparr>status := ''processing'', target_language := l\<rparr>) d)
     | Some e \<Rightarrow> (Inl (CommitError e), d))"
  using assms
  by (simp add: start_translation_def query_get_def commit_def Let_def split: option.splits)

lemma start_translation_not_reached:
  assumes "\<not> (configured key \<and> fault = None \<and>
     (\<exists>b i l j. data = Some b \<and> b_job_id b = Some i \<and> in_int64 i \<and>
        b_target_language b = Some l \<and> get_job d i = Some j \<and> status j = ''uploaded''))"
  shows "snd (start_translation key fault data d) = d"
  using assms
  by (auto simp add: start_translation_def query_get_def commit_def Let_def
      split: option.splits sum.splits)

lemma start_translation_shape:
  "snd (start_translation key fault data d) = d \<or>
   (\<exists>b i j l. data = Some b \<and> b_target_language b = Some l \<and>
      get_job d i = Some j \<and> status j = ''uploaded'' \<and>
      snd (start_translation key fault data d) =
        upd_job i (\<lambda>_. j\<lparr>status := ''processing'', target_language := l\<rparr>) d)"
proof (cases "configured key \<and> fault = None \<and>
     (\<exists>b i l j. data = Some b \<and> b_job_id b = Some i \<and> in_int64 i \<and>
        b_target_language b = Some l \<and> get_job d i = Some j \<and> status j = ''uploaded'')")
  case True
  then obtain b i l j where h: "configured key" "in_int64 i" "get_job d i = Some j"
    "status j = ''uploaded''" and f: "fault = None"
    and b: "data = Some b" "b_job_id b = Some i" "b_target_language b = Some l"
    by blast
  have "data = Some \<lparr>b_job_id = Some i, b_target_language = Some l\<rparr>"
    using b by simp
  then have "snd (start_translation key fault data d) =
      upd_job i (\<lambda>_. j\<lparr>status := ''processing'', target_language := l\<rparr>) d"
    using start_translation_reached [OF h, of fault l] f by simp
  then show ?thesis using b h by blast
next
  case False
  then show ?thesis by (simp only: start_translation_not_reached simp_thms)
qed

subsection \<open>Every write relates each row to its successor\<close>

text \<open>For a relation \<open>R\<close> on rows that holds of a row and itself and of the three
  status writes, each made on a row in the status the operation requires.\<close>

lemma translate_rel:
  assumes refl: "\<And>j. R j j"
    and start: "\<And>j l. status j = ''uploaded'' \<Longrightarrow>
                  R j (j\<lparr>status := ''processing'', target_language := l\<rparr>)"
  shows "rows_rel R d (snd (start_translation key fault data d))"
  using start_translation_shape [of key fault data d]
proof (elim disjE exE conjE)
  assume "snd (start_translation key fault data d) = d"
  then show ?thesis by (simp add: rows_rel_refl refl)
next
  fix b i j l
  assume "get_job d i = Some j" "status j = ''uploaded''"
    and s: "snd (start_translation key fault data d) =
        upd_job i (\<lambda>_. j\<lparr>status := ''processing'', target_language := l\<rparr>) d"
  then have "rows_rel R d (upd_job i (\<lambda>_. j\<lparr>status := ''processing'', target_language := l\<rparr>) d)"
    by (intro rows_rel_upd) (auto simp: refl start)
  then show ?thesis by (simp only: s)
qed

lemma outcome_rel:
  assumes refl: "\<And>j. R j j"
    and fail: "\<And>j. status j = ''processing'' \<Longrightarrow> R j (j\<lparr>status := ''failed''\<rparr>)"
    and fin: "\<And>j. status j = ''processing'' \<Longrightarrow> R j (j\<lparr>status := ''completed''\<rparr>)"
  shows "rows_rel R d (snd (apply_provider_outcome i out d))"
proof -
  have a: "rows_rel R d (upd_job i (\<lambda>_. j\<lparr>status := s\<rparr>) d)"
    if "get_job d i = Some j" "status j = ''processing''" "s = ''failed'' \<or> s = ''completed''" for j s
    using that by (intro rows_rel_upd) (auto simp: refl fail fin)
  have b: "rows_rel R d (d'\<lparr>failure_reasons := x\<rparr>) = rows_rel R d d'" for d' x
    by (simp add: rows_rel_def)
  show ?thesis
    by (auto simp: apply_provider_outcome_def Let_def a b rows_rel_refl refl
        split: option.splits outcome.splits)
qed

lemma upload_rel:
  assumes refl: "\<And>j. R j j"
  shows "rows_rel R d (snd (upload_file now exc req d))"
  by (auto simp: upload_file_def Let_def rows_rel_append rows_rel_refl refl split: option.splits)

lemma create_user_jobs: "jobs (snd (create_user now data d)) = jobs d"
  by (auto simp: create_user_def Let_def split: option.splits)

lemma writes_rel:
  assumes refl: "\<And>j. R j j"
    and start: "\<And>j l. status j = ''uploaded'' \<Longrightarrow>
                  R j (j\<lparr>status := ''processing'', target_language := l\<rparr>)"
    and fail: "\<And>j. status j = ''processing'' \<Longrightarrow> R j (j\<lparr>status := ''failed''\<rparr>)"
    and fin: "\<And>j. status j = ''processing'' \<Longrightarrow> R j (j\<lparr>status := ''completed''\<rparr>)"
  shows "successively (rows_rel R) (d # writes key a d)"
proof (cases a)
  case (CreateAccount now data)
  then show ?thesis by (simp add: rows_rel_def create_user_jobs list_all2_refl refl)
next
  case (RegisterUpload now exc req)
  then show ?thesis by (simp add: upload_rel refl)
next
  case (RequestTranslation fault data)
  then show ?thesis by (simp add: translate_rel refl start)
next
  case (ApplyProviderOutcome i out)
  then show ?thesis by (simp add: outcome_rel refl fail fin)
next
  case (GetJob i)
  then show ?thesis by simp
qed

lemma history_rel:
  assumes refl: "\<And>j. R j j"
    and start: "\<And>j l. status j = ''uploaded'' \<Longrightarrow>
                  R j (j\<lparr>status := ''processing'', target_language := l\<rparr>)"
    and fail: "\<And>j. status j = ''processing'' \<Longrightarrow> R j (j\<lparr>status := ''failed''\<rparr>)"
    and fin: "\<And>j. status j = ''processing'' \<Longrightarrow> R j (j\<lparr>status := ''completed''\<rparr>)"
  shows "successively (rows_rel R) (d # history key as d)"
proof (induction as arbitrary: d)
  case Nil
  then show ?case by simp
next
  case (Cons a as)
  have "successively (rows_rel R) (d # writes key a d)"
    by (rule writes_rel) (auto simp: refl start fail fin)
  moreover have "successively (rows_rel R)
      (last (d # writes key a d) # history key as (last (d # writes key a d)))"
    by (rule Cons.IH)
  ultimately show ?case
    using successively_join [of "rows_rel R" d "writes key a d"] by (simp add: Let_def)
qed

subsection \<open>Every write keeps a property of all rows\<close>

text \<open>\<open>Q\<close> is what is known of the target languages that the translate requests
  carry.\<close>

lemma translate_inv:
  assumes start: "\<And>j l. P j \<Longrightarrow> status j = ''uploaded'' \<Longrightarrow> Q l \<Longrightarrow>
                  P (j\<lparr>status := ''processing'', target_language := l\<rparr>)"
    and lang: "\<And>b l. data = Some b \<Longrightarrow> b_target_language b = Some l \<Longrightarrow> Q l"
    and inv: "list_all P (jobs d)"
  shows "list_all P (jobs (snd (start_translation key fault data d)))"
  using start_translation_shape [of key fault data d]
proof (elim disjE exE conjE)
  assume "snd (start_translation key fault data d) = d"
  then show ?thesis using inv by simp
next
  fix b i j l
  assume h: "data = Some b" "b_target_language b = Some l" "get_job d i = Some j"
    "status j = ''uploaded''"
    and s: "snd (start_translation key fault data d) =
        upd_job i (\<lambda>_. j\<lparr>status := ''processing'', target_language := l\<rparr>) d"
  have "Q l" using h(1,2) by (rule lang)
  then have "list_all P (jobs (upd_job i (\<lambda>_. j\<lparr>status := ''processing'', target_language := l\<rparr>) d))"
    using inv h by (intro jobs_upd_all) (auto simp: start)
  then show ?thesis by (simp only: s)
qed

lemma outcome_inv:
  assumes fail: "\<And>j. P j \<Longrightarrow> status j = ''processing'' \<Longrightarrow> P (j\<lparr>status := ''failed''\<rparr>)"
    and fin: "\<And>j. P j \<Longrightarrow> status j = ''processing'' \<Longrightarrow> P (j\<lparr>status := ''completed''\<rparr>)"
    and inv: "list_all P (jobs d)"
  shows "list_all P (jobs (snd (apply_provider_outcome i out d)))"
proof -
  have a: "list_all P (jobs (upd_job i (\<lambda>_. j\<lparr>status := s\<rparr>) d))"
    if "get_job d i = Some j" "status j = ''processing''" "s = ''failed'' \<or> s = ''completed''" for j s
    using inv that by (intro jobs_upd_all) (auto simp: fail fin)
  show ?thesis
    using inv by (auto simp: apply_provider_outcome_def Let_def a split: option.splits outcome.splits)
qed

lemma upload_inv:
  assumes new: "\<And>i u f t. P \<lparr>jid = i, user_id = u, original_filename = f,
      target_language = None, status = ''uploaded'', created_at = t\<rparr>"
    and inv: "list_all P (jobs d)"
  shows "list_all P (jobs (snd (upload_file now exc req d)))"
  using inv by (auto simp: upload_file_def Let_def new split: option.splits)

lemma writes_inv:
  assumes new: "\<And>i u f t. P \<lparr>jid = i, user_id = u, original_filename = f,
      target_language = None, status = ''uploaded'', created_at = t\<rparr>"
    and start: "\<And>j l. P j \<Longrightarrow> status j = ''uploaded'' \<Longrightarrow> Q l \<Longrightarrow>
                  P (j\<lparr>status := ''processing'', target_language := l\<rparr>)"
    and fail: "\<And>j. P j \<Longrightarrow> status j = ''processing'' \<Longrightarrow> P (j\<lparr>status := ''failed''\<rparr>)"
    and fin: "\<And>j. P j \<Longrightarrow> status j = ''processing'' \<Longrightarrow> P (j\<lparr>status := ''completed''\<rparr>)"
    and lang: "\<And>fault b l. a = RequestTranslation fault (Some b) \<Longrightarrow>
                  b_target_language b = Some l \<Longrightarrow> Q l"
    and inv: "list_all P (jobs d)"
  shows "list_all (\<lambda>d'. list_all P (jobs d')) (writes key a d)"
proof (cases a)
  case (CreateAccount now data)
  then show ?thesis using inv by (simp add: create_user_jobs)
next
  case (RegisterUpload now exc req)
  then show ?thesis using upload_inv [of P d now exc req] inv by (simp add: new)
next
  case (RequestTranslation fault data)
  have "list_all P (jobs (snd (start_translation key fault data d)))"
  proof (rule translate_inv [of P Q])
    show "P (j\<lparr>status := ''processing'', target_language := l\<rparr>)"
      if "P j" "status j = ''uploaded''" "Q l" for j l
      using that by (rule start)
    show "Q l" if "data = Some b" "b_target_language b = Some l" for b l
      using lang [of fault b l] RequestTranslation that by simp
    show "list_all P (jobs d)" by (rule inv)
  qed
  then show ?thesis using RequestTranslation by simp
next
  case (ApplyProviderOutcome i out)
  then show ?thesis using outcome_inv [of P d i out] inv by (simp add: fail fin)
next
  case (GetJob i)
  then show ?thesis by simp
qed

lemma history_inv:
  assumes new: "\<And>i u f t. P \<lparr>jid = i, user_id = u, original_filename = f,
      target_language = None, status = ''uploaded'', created_at = t\<rparr>"
    and start: "\<And>j l. P j \<Longrightarrow> status j = ''uploaded'' \<Longrightarrow> Q l \<Longrightarrow>
                  P (j\<lparr>status := ''processing'', target_language := l\<rparr>)"
    and fail: "\<And>j. P j \<Longrightarrow> status j = ''processing'' \<Longrightarrow> P (j\<lparr>status := ''failed''\<rparr>)"
    and fin: "\<And>j. P j \<Longrightarrow> status j = ''processing'' \<Longrightarrow> P (j\<lparr>status := ''completed''\<rparr>)"
  shows "(\<And>a fault b l. a \<in> set as \<Longrightarrow> a = RequestTranslation fault (Some b) \<Longrightarrow>
            b_target_language b = Some l \<Longrightarrow> Q l) \<Longrightarrow>
         list_all P (jobs d) \<Longrightarrow> list_all (\<lambda>d'. list_all P (jobs d')) (history key as d)"
proof (induction as arbitrary: d)
  case Nil
  then show ?case by simp
next
  case (Cons a as)
  have w: "list_all (\<lambda>d'. list_all P (jobs d')) (writes key a d)"
  proof (rule writes_inv [of P Q])
    show "Q l" if "a = RequestTranslation fault (Some b)" "b_target_language b = Some l"
      for fault b l
      using Cons.prems(1) [of a fault b l] that by simp
  qed (auto simp: new start fail fin Cons.prems(2))
  then have "list_all P (jobs (last (d # writes key a d)))"
    using Cons.prems(2) by (auto simp: list_all_iff)
  moreover have "Q l" if "a' \<in> set as" "a' = RequestTranslation fault (Some b)"
    "b_target_language b = Some l" for a' fault b l
    using Cons.prems(1) [of a' fault b l] that by simp
  ultimately have "list_all (\<lambda>d'. list_all P (jobs d'))
      (history key as (last (d # writes key a d)))"
    by (intro Cons.IH) auto
  with w show ?case by (simp add: Let_def)
qed


subsection \<open>The handlers on given inputs\<close>

lemma history_step:
  "history key (a # as) d = writes key a d @ history key as (last (d # writes key a d))"
  by (simp add: Let_def)

lemma example_statuses:
  "map (\<lambda>d. map status (jobs d)) (history (Some ''k'') example_run example_db) =
     [[''uploaded''], [''processing''], [''completed''], [''completed''],
      [''completed'', ''uploaded''], [''completed'', ''uploaded''],
      [''completed'', ''processing''], [''completed'', ''failed'']]"
  by (simp add: history_step example_run_def example_db_def upload_file_def get_user_def
      next_id_def start_translation_def query_get_def in_int64_def commit_def configured_def
      get_job_def upd_job_def apply_provider_outcome_def Let_def del: history.simps(2))


subsection \<open>Relations that hold under a property of the rows\<close>




subsection \<open>The provider outcome\<close>

lemma get_job_reasons: "get_job (d\<lparr>failure_reasons := x\<rparr>) i = get_job d i"
  by (simp add: get_job_def)

lemma outcome_terminal:
  "get_job d i = Some j \<Longrightarrow> terminal (status j) \<Longrightarrow> apply_provider_outcome i out d = (Inr j, d)"
  by (auto simp: apply_provider_outcome_def terminal_def)

lemma outcome_processing:
  assumes "get_job d i = Some j" and "status j = ''processing''"
  shows "\<exists>j'. fst (apply_provider_outcome i out d) = Inr j' \<and> terminal (status j') \<and>
           get_job (snd (apply_provider_outcome i out d)) i = Some j'"
proof -
  have i: "jid j = i" using assms(1) by (rule get_job_jid)
  have g: "get_job (upd_job i (\<lambda>_. j\<lparr>status := s\<rparr>) d) i = Some (j\<lparr>status := s\<rparr>)" for s
    using assms(1) i by (intro get_job_upd) auto
  show ?thesis
    using assms g
    by (cases out) (simp_all add: apply_provider_outcome_def Let_def terminal_def get_job_reasons)
qed

subsection \<open>New keys\<close>

lemma foldr_max_ge: "x \<in> set xs \<Longrightarrow> x \<le> foldr max xs (0::int)"
  by (induction xs) auto

lemma next_id_fresh: "x \<in> set xs \<Longrightarrow> x < next_id xs"
  using foldr_max_ge [of x xs] by (simp add: next_id_def)

lemma get_job_next_id: "get_job d (next_id (map jid (jobs d))) = None"
proof -
  have "jid j \<noteq> next_id (map jid (jobs d))" if "j \<in> set (jobs d)" for j
    using next_id_fresh [of "jid j" "map jid (jobs d)"] that by auto
  then show ?thesis by (simp add: get_job_def find_None_iff)
qed

lemma find_snoc: "find P xs = None \<Longrightarrow> P x \<Longrightarrow> find P (xs @ [x]) = Some x"
  by (induction xs) (auto split: if_splits)

lemma get_job_appended:
  "get_job d (jid j) = None \<Longrightarrow> get_job (d\<lparr>jobs := jobs d @ [j]\<rparr>) (jid j) = Some j"
  by (simp add: get_job_def find_snoc)

subsection \<open>The account table\<close>

lemma find_email: "(find (\<lambda>u. email u = e) us = None) = (e \<notin> set (map email us))"
  by (auto simp: find_None_iff)

lemma create_user_unique:
  "emails_unique d \<Longrightarrow> emails_unique (snd (create_user now data d))"
  by (auto simp: create_user_def emails_unique_def Let_def find_email split: option.splits)

lemma upload_users: "users (snd (upload_file now exc req d)) = users d"
  by (auto simp: upload_file_def Let_def split: option.splits)

lemma outcome_users: "users (snd (apply_provider_outcome i out d)) = users d"
  by (auto simp: apply_provider_outcome_def Let_def upd_job_def split: option.splits outcome.splits)

lemma translate_users: "users (snd (start_translation key fault data d)) = users d"
  using start_translation_shape [of key fault data d] by (auto simp: upd_job_def)

lemma writes_unique:
  assumes "emails_unique d"
  shows "list_all emails_unique (writes key a d)"
proof (cases a)
  case (CreateAccount now data)
  then show ?thesis using assms by (simp add: create_user_unique)
next
  case (RegisterUpload now exc req)
  then show ?thesis using assms by (simp add: emails_unique_def upload_users)
next
  case (RequestTranslation fault data)
  then show ?thesis using assms by (simp add: emails_unique_def translate_users)
next
  case (ApplyProviderOutcome i out)
  then show ?thesis using assms by (simp add: emails_unique_def outcome_users)
next
  case (GetJob i)
  then show ?thesis by simp
qed

lemma history_unique:
  "emails_unique d \<Longrightarrow> list_all emails_unique (history key as d)"
proof (induction as arbitrary: d)
  case Nil
  then show ?case by simp
next
  case (Cons a as)
  have w: "list_all emails_unique (writes key a d)"
    using Cons.prems by (rule writes_unique)
  then have "emails_unique (last (d # writes key a d))"
    using Cons.prems by (auto simp: list_all_iff)
  then have "list_all emails_unique (history key as (last (d # writes key a d)))"
    by (rule Cons.IH)
  with w show ?case by (simp add: Let_def)
qed

lemma example_accounts:
  "map (\<lambda>d. map email (users d)) (history None accounts_run example_db) =
     [[''a1@example.org''], [''a1@example.org'', ''a2@example.org''],
      [''a1@example.org'', ''a2@example.org'']]"
  by (simp add: history_step accounts_run_def example_db_def create_user_def upload_file_def
      get_user_def next_id_def Let_def del: history.simps(2))

section \<open>Claims\<close>

text \<open>
  C1. For every job and every sequence of operations (account creation, upload, translate
  request, provider outcome, status poll), from a database whose statuses are among
  \<^verbatim>\<open>uploaded\<close>, \<^verbatim>\<open>processing\<close>, \<^verbatim>\<open>completed\<close>, \<^verbatim>\<open>failed\<close>: every database the
  run leaves has only these statuses, and from each database to the next every job row
  stays in place with its key, and its status either stays or follows an edge of
  uploaded \<rightarrow> processing \<rightarrow> completed | failed; a terminal status never changes. The
  provider outcome is the operation modelled from the specification.
\<close>

theorem status_follows_lifecycle:
  "statuses_known d \<Longrightarrow>
     list_all statuses_known (history key as d) \<and>
     successively (rows_rel status_step) (d # history key as d)"
proof
  assume "statuses_known d"
  then have "list_all (\<lambda>j. known_status (status j)) (jobs d)"
    by (simp add: statuses_known_def)
  then have "list_all (\<lambda>d'. list_all (\<lambda>j. known_status (status j)) (jobs d')) (history key as d)"
    by (rule history_inv [of _ "\<lambda>_. True", rotated -1]) (simp_all add: known_status_def)
  then show "list_all statuses_known (history key as d)"
    by (simp add: statuses_known_def [abs_def])
next
  show "successively (rows_rel status_step) (d # history key as d)"
    by (rule history_rel) (simp_all add: status_step_def edge_def terminal_def)
qed

text \<open>The example run passes through every status.\<close>

theorem status_follows_lifecycle_witness:
  "statuses_known example_db \<and>
   map (\<lambda>d. map status (jobs d)) (history (Some ''k'') example_run example_db) =
     [[''uploaded''], [''processing''], [''completed''], [''completed''],
      [''completed'', ''uploaded''], [''completed'', ''uploaded''],
      [''completed'', ''processing''], [''completed'', ''failed'']] \<and>
   list_all statuses_known (history (Some ''k'') example_run example_db) \<and>
   successively (rows_rel status_step) (example_db # history (Some ''k'') example_run example_db)"
proof -
  have h: "statuses_known example_db"
    by (simp add: statuses_known_def example_db_def)
  show ?thesis
    using h status_follows_lifecycle [OF h, of "Some ''k''" example_run] example_statuses
    by simp
qed

text \<open>
  C2, as stated, fails: the source never compares the target language with the list
  it advertises. With the key configured, a translate request for the language
  \<^verbatim>\<open>xx\<close>, which is not in the list, on an uploaded job answers 200 and moves the
  job to \<^verbatim>\<open>processing\<close> with target language \<^verbatim>\<open>xx\<close>.
\<close>

theorem unsupported_language_counterexample:
  "''xx'' \<notin> set supported_languages \<and>
   get_job uploaded_db 1 = Some uploaded_job \<and>
   status uploaded_job = ''uploaded'' \<and>
   start_translation (Some ''k'') None
     (Some \<lparr>b_job_id = Some 1, b_target_language = Some (Some ''xx'')\<rparr>) uploaded_db =
   (Inr (started_response
           (uploaded_job\<lparr>status := ''processing'', target_language := Some ''xx''\<rparr>) (Some ''xx'')),
    uploaded_db\<lparr>jobs := [uploaded_job\<lparr>status := ''processing'', target_language := Some ''xx''\<rparr>]\<rparr>)"
  by (simp add: supported_languages_def uploaded_db_def uploaded_job_def example_db_def
      start_translation_def query_get_def in_int64_def commit_def configured_def get_job_def
      upd_job_def Let_def)

text \<open>
  C2, amended. For every job in status \<^verbatim>\<open>uploaded\<close> (found under a key in the
  range of SQLite's integers) and every target language \<open>L\<close>, in the supported list
  or not: when the key is configured and the commit meets no fault, the translate
  request succeeds with the "Translation started successfully!" response (status
  200), and the job is then in status \<^verbatim>\<open>processing\<close> with target language \<open>L\<close>.
\<close>

theorem any_language_is_accepted:
  assumes "configured key" and "in_int64 i" and "get_job d i = Some j"
    and "status j = ''uploaded''"
  shows "start_translation key None
           (Some \<lparr>b_job_id = Some i, b_target_language = Some (Some L)\<rparr>) d =
           (Inr (started_response (j\<lparr>status := ''processing'', target_language := Some L\<rparr>) (Some L)),
            upd_job i (\<lambda>_. j\<lparr>status := ''processing'', target_language := Some L\<rparr>) d) \<and>
         get_job (snd (start_translation key None
             (Some \<lparr>b_job_id = Some i, b_target_language = Some (Some L)\<rparr>) d)) i =
           Some (j\<lparr>status := ''processing'', target_language := Some L\<rparr>)"
  using get_job_upd [OF assms(3), of "\<lambda>_. j\<lparr>status := ''processing'', target_language := Some L\<rparr>"]
    get_job_jid [OF assms(3)]
  by (simp add: start_translation_reached [OF assms])

text \<open>The amended statement at the language \<^verbatim>\<open>xx\<close>.\<close>

theorem any_language_is_accepted_witness:
  "configured (Some ''k'') \<and> in_int64 1 \<and> get_job uploaded_db 1 = Some uploaded_job \<and>
   status uploaded_job = ''uploaded'' \<and> ''xx'' \<notin> set supported_languages \<and>
   get_job (snd (start_translation (Some ''k'') None
       (Some \<lparr>b_job_id = Some 1, b_target_language = Some (Some ''xx'')\<rparr>) uploaded_db)) 1 =
     Some (uploaded_job\<lparr>status := ''processing'', target_language := Some ''xx''\<rparr>)"
proof -
  have a: "configured (Some ''k'')" by (simp add: configured_def)
  have r: "in_int64 1" by (simp add: in_int64_def)
  have b: "get_job uploaded_db 1 = Some uploaded_job"
    by (simp add: get_job_def uploaded_db_def uploaded_job_def)
  have c: "status uploaded_job = ''uploaded''" by (simp add: uploaded_job_def)
  have d: "''xx'' \<notin> set supported_languages" by (simp add: supported_languages_def)
  show ?thesis
    using a r b c d any_language_is_accepted [OF a r b c, of "''xx''", THEN conjunct2] by simp
qed

text \<open>
  C3, as stated, fails in two places. Where the key is not configured, the handler
  tests the key before it looks the job up (lines 186-190), so a request on a job in
  \<^verbatim>\<open>processing\<close> and a request naming no existing job both get the configuration
  error, neither the wrong-status answer nor "Job not found". And with the key
  configured, a job id outside the range of SQLite's integers, which names no job,
  makes the lookup of line 204 raise: the exception leaves the handler, and the
  answer is not "Job not found".
\<close>

theorem wrong_status_counterexample:
  "get_job processing_db 1 = Some processing_job \<and>
   status processing_job \<noteq> ''uploaded'' \<and>
   start_translation None None
     (Some \<lparr>b_job_id = Some 1, b_target_language = Some (Some ''es'')\<rparr>) processing_db =
     (Inr not_configured_response, processing_db) \<and>
   not_configured_response \<noteq> wrong_status_response processing_job \<and>
   get_job processing_db 2 = None \<and>
   start_translation None None
     (Some \<lparr>b_job_id = Some 2, b_target_language = Some (Some ''es'')\<rparr>) processing_db =
     (Inr not_configured_response, processing_db) \<and>
   not_configured_response \<noteq> job_not_found_response \<and>
   get_job processing_db 9223372036854775808 = None \<and>
   start_translation (Some ''k'') None
     (Some \<lparr>b_job_id = Some 9223372036854775808, b_target_language = Some (Some ''es'')\<rparr>)
     processing_db =
     (Inl OverflowError, processing_db)"
  by (simp add: processing_db_def processing_job_def uploaded_job_def example_db_def
      start_translation_def query_get_def in_int64_def configured_def get_job_def
      not_configured_response_def wrong_status_response_def job_not_found_response_def)

text \<open>
  C3, amended. When the key is configured and the job id is in the range of SQLite's
  integers: a translate request on a job whose status is not \<^verbatim>\<open>uploaded\<close> leaves
  the database as it was and answers 400 with the message "Job status is S, expected
  uploaded", where S is the job's current status; a request naming no existing job
  leaves the database as it was and answers 404 "Job not found". This holds whatever
  the target language is and whether or not a commit would meet a fault. (The source
  calls no provider on any path.)
\<close>

theorem wrong_status_or_unknown_job_rejected:
  assumes "configured key" and "in_int64 i"
  shows "(get_job d i = Some j \<and> status j \<noteq> ''uploaded'' \<longrightarrow>
            start_translation key fault
              (Some \<lparr>b_job_id = Some i, b_target_language = Some L\<rparr>) d =
              (Inr ([(''error'', JStr (''Job status is '' @ status j @ '', expected uploaded''))],
                    400), d)) \<and>
         (get_job d i = None \<longrightarrow>
            start_translation key fault
              (Some \<lparr>b_job_id = Some i, b_target_language = Some L\<rparr>) d =
              (Inr ([(''error'', JStr ''Job not found'')], 404), d))"
  using assms
  by (simp add: start_translation_def query_get_def wrong_status_response_def
      job_not_found_response_def)

text \<open>The amended statement on a job in \<^verbatim>\<open>processing\<close> and on an unknown job id.\<close>

theorem wrong_status_or_unknown_job_rejected_witness:
  "configured (Some ''k'') \<and> in_int64 1 \<and> in_int64 2 \<and>
   get_job processing_db 1 = Some processing_job \<and> status processing_job \<noteq> ''uploaded'' \<and>
   start_translation (Some ''k'') None
     (Some \<lparr>b_job_id = Some 1, b_target_language = Some (Some ''fr'')\<rparr>) processing_db =
     (Inr ([(''error'', JStr ''Job status is processing, expected uploaded'')], 400),
      processing_db) \<and>
   get_job processing_db 2 = None \<and>
   start_translation (Some ''k'') None
     (Some \<lparr>b_job_id = Some 2, b_target_language = Some (Some ''fr'')\<rparr>) processing_db =
     (Inr ([(''error'', JStr ''Job not found'')], 404), processing_db)"
proof -
  have a: "configured (Some ''k'')" by (simp add: configured_def)
  have r1: "in_int64 1" and r2: "in_int64 2" by (simp_all add: in_int64_def)
  have b: "get_job processing_db 1 = Some processing_job"
    by (simp add: get_job_def processing_db_def processing_job_def uploaded_job_def)
  have c: "status processing_job \<noteq> ''uploaded''" by (simp add: processing_job_def)
  have d: "get_job processing_db 2 = None"
    by (simp add: get_job_def processing_db_def processing_job_def uploaded_job_def)
  have e: "status processing_job = ''processing''" by (simp add: processing_job_def)
  show ?thesis
    using a r1 r2 b c d e
      wrong_status_or_unknown_job_rejected [OF a r1, of processing_db processing_job None
        "Some ''fr''"]
      wrong_status_or_unknown_job_rejected [OF a r2, of processing_db processing_job None
        "Some ''fr''"]
    by simp
qed





text \<open>
  C6. On the operation modelled from the specification: for a job in \<^verbatim>\<open>processing\<close>
  or already terminal, a provider outcome returns a job in a terminal status and no
  error; delivering an outcome again, the same or another one, returns the same job
  and leaves the database as the first delivery left it; on a job already terminal
  the first delivery itself changes nothing.
\<close>

theorem duplicate_outcome_is_idempotent:
  assumes "get_job d i = Some j" and "status j = ''processing'' \<or> terminal (status j)"
  shows "(\<exists>j'. fst (apply_provider_outcome i out1 d) = Inr j' \<and> terminal (status j')) \<and>
         apply_provider_outcome i out2 (snd (apply_provider_outcome i out1 d)) =
           apply_provider_outcome i out1 d \<and>
         (terminal (status j) \<longrightarrow> apply_provider_outcome i out1 d = (Inr j, d))"
proof (cases "terminal (status j)")
  case True
  then show ?thesis using assms(1) by (auto simp: outcome_terminal)
next
  case False
  then have p: "status j = ''processing''" using assms(2) by simp
  from outcome_processing [OF assms(1) p, of out1]
  obtain j' where j': "fst (apply_provider_outcome i out1 d) = Inr j'" "terminal (status j')"
    "get_job (snd (apply_provider_outcome i out1 d)) i = Some j'"
    by blast
  have "apply_provider_outcome i out2 (snd (apply_provider_outcome i out1 d)) =
      (Inr j', snd (apply_provider_outcome i out1 d))"
    using j'(3,2) by (rule outcome_terminal)
  then show ?thesis using j' False by (auto simp: prod_eq_iff)
qed

text \<open>A completion followed by a late failure report.\<close>

theorem duplicate_outcome_is_idempotent_witness:
  "get_job processing_db 1 = Some processing_job \<and>
   status processing_job = ''processing'' \<and>
   apply_provider_outcome 1 Completed processing_db =
     (Inr completed_job, processing_db\<lparr>jobs := [completed_job]\<rparr>) \<and>
   apply_provider_outcome 1 (Failed ''late'') (processing_db\<lparr>jobs := [completed_job]\<rparr>) =
     (Inr completed_job, processing_db\<lparr>jobs := [completed_job]\<rparr>)"
proof -
  have a: "get_job processing_db 1 = Some processing_job"
    by (simp add: get_job_def processing_db_def processing_job_def uploaded_job_def)
  have b: "status processing_job = ''processing''" by (simp add: processing_job_def)
  have c: "apply_provider_outcome 1 Completed processing_db =
     (Inr completed_job, processing_db\<lparr>jobs := [completed_job]\<rparr>)"
    by (simp add: apply_provider_outcome_def get_job_def processing_db_def processing_job_def
        uploaded_job_def completed_job_def upd_job_def Let_def)
  show ?thesis
    using a b c
      duplicate_outcome_is_idempotent [OF a disjI1 [OF b], of Completed "Failed ''late''"]
    by simp
qed

text \<open>
  C8. An upload whose \<^verbatim>\<open>user_id\<close> names no existing account answers 404 "User not
  found" and leaves the database as it was. An upload for an existing account with a
  file whose name is not empty, when nothing raises while the file is stored, answers
  201 and adds exactly one job: its key was not in the table before, its status is
  \<^verbatim>\<open>uploaded\<close> and its target language is null. Nothing else of the database
  changes; the handler has no call to a provider.
\<close>

theorem register_upload_checks_account:
  "(form_user_id req = Some a \<and> get_user d a = None \<longrightarrow>
      upload_file now exc req d = (([(''error'', JStr ''User not found'')], 404), d)) \<and>
   (form_user_id req = Some a \<and> get_user d a \<noteq> None \<and>
    file_name req = Some f \<and> f \<noteq> [] \<and> exc = None \<longrightarrow>
      snd (fst (upload_file now exc req d)) = 201 \<and>
      snd (upload_file now exc req d) =
        d\<lparr>jobs := jobs d @
             [\<lparr>jid = next_id (map jid (jobs d)), user_id = a, original_filename = f,
               target_language = None, status = ''uploaded'', created_at = now\<rparr>]\<rparr> \<and>
      get_job d (next_id (map jid (jobs d))) = None \<and>
      get_job (snd (upload_file now exc req d)) (next_id (map jid (jobs d))) =
        Some \<lparr>jid = next_id (map jid (jobs d)), user_id = a, original_filename = f,
              target_language = None, status = ''uploaded'', created_at = now\<rparr>)"
proof (intro conjI impI)
  assume "form_user_id req = Some a \<and> get_user d a = None"
  then show "upload_file now exc req d = (([(''error'', JStr ''User not found'')], 404), d)"
    by (simp add: upload_file_def)
next
  let ?j = "\<lparr>jid = next_id (map jid (jobs d)), user_id = a, original_filename = f,
             target_language = None, status = ''uploaded'', created_at = now\<rparr>"
  assume h: "form_user_id req = Some a \<and> get_user d a \<noteq> None \<and>
    file_name req = Some f \<and> f \<noteq> [] \<and> exc = None"
  then show "snd (fst (upload_file now exc req d)) = 201"
    by (auto simp: upload_file_def Let_def)
  from h show s: "snd (upload_file now exc req d) = d\<lparr>jobs := jobs d @ [?j]\<rparr>"
    by (auto simp: upload_file_def Let_def)
  show n: "get_job d (next_id (map jid (jobs d))) = None"
    by (rule get_job_next_id)
  show "get_job (snd (upload_file now exc req d)) (next_id (map jid (jobs d))) = Some ?j"
    using get_job_appended [of d ?j] n by (simp add: s)
qed

text \<open>An upload for an unknown account, and the first upload of the example.\<close>

theorem register_upload_checks_account_witness:
  "get_user example_db 9 = None \<and>
   upload_file 5 None \<lparr>form_user_id = Some 9, file_name = Some ''clip.mp4''\<rparr> example_db =
     (([(''error'', JStr ''User not found'')], 404), example_db) \<and>
   get_user example_db 1 \<noteq> None \<and>
   snd (upload_file 5 None \<lparr>form_user_id = Some 1, file_name = Some ''clip.mp4''\<rparr> example_db) =
     uploaded_db"
  using
    register_upload_checks_account [of "\<lparr>form_user_id = Some 9, file_name = Some ''clip.mp4''\<rparr>"
      9 example_db 5 None "''clip.mp4''"]
    register_upload_checks_account [of "\<lparr>form_user_id = Some 1, file_name = Some ''clip.mp4''\<rparr>"
      1 example_db 5 None "''clip.mp4''"]
  by (simp add: get_user_def example_db_def uploaded_db_def uploaded_job_def next_id_def)

text \<open>
  C9. Creating an account with an e-mail address that an account already has answers
  400 "User already exists" and leaves the database as it was; with a new address it
  answers 201 and adds exactly one account, with that address. So from a database in
  which the addresses are pairwise different, they are pairwise different in every
  database a run of operations writes.
\<close>

theorem create_user_keeps_contact_unique:
  "(e \<in> set (map email (users d)) \<longrightarrow>
      create_user now (Some \<lparr>b_email = Some e\<rparr>) d =
        (([(''error'', JStr ''User already exists'')], 400), d)) \<and>
   (e \<notin> set (map email (users d)) \<longrightarrow>
      snd (fst (create_user now (Some \<lparr>b_email = Some e\<rparr>) d)) = 201 \<and>
      snd (create_user now (Some \<lparr>b_email = Some e\<rparr>) d) =
        d\<lparr>users := users d @
             [\<lparr>uid = next_id (map uid (users d)), email = e, registered_at = now\<rparr>]\<rparr>) \<and>
   (emails_unique d \<longrightarrow> list_all emails_unique (history key as d))"
proof (intro conjI impI)
  assume "e \<in> set (map email (users d))"
  then have "find (\<lambda>u. email u = e) (users d) \<noteq> None" by (simp only: find_email simp_thms)
  then show "create_user now (Some \<lparr>b_email = Some e\<rparr>) d =
        (([(''error'', JStr ''User already exists'')], 400), d)"
    by (auto simp: create_user_def)
next
  assume "e \<notin> set (map email (users d))"
  then have n: "find (\<lambda>u. email u = e) (users d) = None" by (simp only: find_email simp_thms)
  show "snd (fst (create_user now (Some \<lparr>b_email = Some e\<rparr>) d)) = 201"
    by (simp add: create_user_def n Let_def)
  show "snd (create_user now (Some \<lparr>b_email = Some e\<rparr>) d) =
        d\<lparr>users := users d @
             [\<lparr>uid = next_id (map uid (users d)), email = e, registered_at = now\<rparr>]\<rparr>"
    by (simp add: create_user_def n Let_def)
next
  assume "emails_unique d"
  then show "list_all emails_unique (history key as d)" by (rule history_unique)
qed

text \<open>A duplicate registration, a new one, and a run that registers two accounts.\<close>

theorem create_user_keeps_contact_unique_witness:
  "''a1@example.org'' \<in> set (map email (users example_db)) \<and>
   create_user 7 (Some \<lparr>b_email = Some ''a1@example.org''\<rparr>) example_db =
     (([(''error'', JStr ''User already exists'')], 400), example_db) \<and>
   ''a2@example.org'' \<notin> set (map email (users example_db)) \<and>
   map email (users (snd (create_user 8 (Some \<lparr>b_email = Some ''a2@example.org''\<rparr>) example_db))) =
     [''a1@example.org'', ''a2@example.org''] \<and>
   emails_unique example_db \<and>
   map (\<lambda>d. map email (users d)) (history None accounts_run example_db) =
     [[''a1@example.org''], [''a1@example.org'', ''a2@example.org''],
      [''a1@example.org'', ''a2@example.org'']] \<and>
   list_all emails_unique (history None accounts_run example_db)"
proof -
  have a: "''a1@example.org'' \<in> set (map email (users example_db))"
    by (simp add: example_db_def)
  have b: "''a2@example.org'' \<notin> set (map email (users example_db))"
    by (simp add: example_db_def)
  have c: "emails_unique example_db"
    by (simp add: emails_unique_def example_db_def)
  show ?thesis
    using a b c example_accounts
      create_user_keeps_contact_unique [of "''a1@example.org''" example_db 7 None accounts_run]
      create_user_keeps_contact_unique [of "''a2@example.org''" example_db 8 None accounts_run]
    by (simp add: example_db_def)
qed

text \<open>
  C10. When \<^verbatim>\<open>HEYGEN_API_KEY\<close> is not configured, every call of the translate handler
  answers with the configuration error (status 500) before it looks a job up or
  changes anything: whatever the body is, also one naming a job that does not exist,
  the answer is the configuration error and not "Job not found", and the database is
  the one it was.
\<close>

theorem unconfigured_key_rejects_first:
  "\<not> configured key \<Longrightarrow>
     start_translation key fault data d = (Inr not_configured_response, d) \<and>
     fst (start_translation key fault data d) \<noteq> Inr job_not_found_response"
  by (simp add: start_translation_def not_configured_response_def job_not_found_response_def)

theorem unconfigured_key_rejects_first_witness:
  "\<not> configured None \<and>
   get_job empty_db 7 = None \<and>
   start_translation None None
     (Some \<lparr>b_job_id = Some 7, b_target_language = Some (Some ''es'')\<rparr>) empty_db
     = (Inr not_configured_response, empty_db)"
  using unconfigured_key_rejects_first [of None None
      "Some \<lparr>b_job_id = Some 7, b_target_language = Some (Some ''es'')\<rparr>" empty_db]
  by (simp add: configured_def get_job_def empty_db_def)

end
